theory Spec2Isabelle
  imports Complex_Main "HOL-Library.AList"
begin

section \<open>Values and text\<close>

text \<open>
  The program is \<^verbatim>\<open>src/ugcs.py\<close>. Text and bytes are both modelled as \<open>string\<close>: a
  Python \<^verbatim>\<open>str\<close> is represented by its UTF-8 bytes, so \<^verbatim>\<open>s.encode("utf-8")\<close> and
  \<^verbatim>\<open>b.decode()\<close> are the identity on the representation.

  The values that \<^verbatim>\<open>json.loads\<close> produces are the type \<open>json\<close>; \<open>JNull\<close> is Python's
  \<^verbatim>\<open>None\<close>. A dictionary keeps its insertion order, so it is an association list.
  Numbers are Python integers: the numbers this program computes with
  (\<^verbatim>\<open>expires_in\<close>, \<^verbatim>\<open>expires_at\<close>, \<^verbatim>\<open>iat\<close>, \<^verbatim>\<open>exp\<close>) are whole seconds, and JSON
  numbers with a fraction or an exponent are not represented.
\<close>

datatype json =
    JNull
  | JBool bool
  | JInt int
  | JStr string
  | JList "json list"
  | JDict "(string \<times> json) list"

datatype error =
    HTTPError nat
  | URLError
  | JSONDecodeError
  | KeyError string
  | TypeError
  | OSError
  | FileNotFoundError
  | BadGzipFile

subsection \<open>Number formatting\<close>

definition hex_digit :: "bool \<Rightarrow> nat \<Rightarrow> char" where
  "hex_digit upper d =
     ((if upper then ''0123456789ABCDEF'' else ''0123456789abcdef'') ! (d mod 16))"

text \<open>\<^verbatim>\<open>'%{:02X}'.format(b)\<close> for a byte, and \<^verbatim>\<open>'\\u{0:04x}'.format(n)\<close> for \<open>n < 0x10000\<close>.\<close>

definition hex2_upper :: "nat \<Rightarrow> string" where
  "hex2_upper b = [hex_digit True (b div 16), hex_digit True b]"

definition hex4_lower :: "nat \<Rightarrow> string" where
  "hex4_lower n =
     [hex_digit False (n div 4096), hex_digit False (n div 256),
      hex_digit False (n div 16), hex_digit False n]"

fun str_nat :: "nat \<Rightarrow> string" where
  "str_nat n =
     (if n < 10 then [''0123456789'' ! n]
      else str_nat (n div 10) @ [''0123456789'' ! (n mod 10)])"

declare str_nat.simps [simp del]

text \<open>\<^verbatim>\<open>str(i)\<close> for a Python integer.\<close>

definition str_int :: "int \<Rightarrow> string" where
  "str_int i = (if i < 0 then CHR ''-'' # str_nat (nat (- i)) else str_nat (nat i))"

subsection \<open>\<^verbatim>\<open>json.dumps\<close>\<close>

text \<open>
  \<^verbatim>\<open>py_encode_basestring_ascii\<close> (\<^verbatim>\<open>ensure_ascii\<close> is left at its default) replaces
  the backslash, the double quote and every character outside \<open>' '..'~'\<close>. An ASCII
  character is one byte of the representation.
\<close>

definition escape_ascii :: "char \<Rightarrow> string" where
  "escape_ascii c =
     (if c = CHR 0x5C then [CHR 0x5C, CHR 0x5C]
      else if c = CHR 0x22 then [CHR 0x5C, CHR 0x22]
      else if c = CHR 0x08 then [CHR 0x5C, CHR ''b'']
      else if c = CHR 0x0C then [CHR 0x5C, CHR ''f'']
      else if c = CHR 0x0A then [CHR 0x5C, CHR ''n'']
      else if c = CHR 0x0D then [CHR 0x5C, CHR ''r'']
      else if c = CHR 0x09 then [CHR 0x5C, CHR ''t'']
      else if 0x20 \<le> (of_char c :: nat) \<and> (of_char c :: nat) \<le> 0x7E then [c]
      else [CHR 0x5C, CHR ''u''] @ hex4_lower (of_char c))"

text \<open>A code point \<open>n\<close> beyond ASCII: one escape, or a surrogate pair from \<open>0x10000\<close> on.\<close>

definition escape_non_ascii :: "nat \<Rightarrow> string" where
  "escape_non_ascii n =
     (if n < 0x10000 then [CHR 0x5C, CHR ''u''] @ hex4_lower n
      else (let m = n - 0x10000;
                s1 = 0xD800 + (m div 1024) mod 1024;
                s2 = 0xDC00 + m mod 1024
            in [CHR 0x5C, CHR ''u''] @ hex4_lower s1 @ [CHR 0x5C, CHR ''u''] @ hex4_lower s2))"

text \<open>
  The escaped characters of a \<^verbatim>\<open>str\<close>, read off its UTF-8 bytes. A byte sequence that
  is not the UTF-8 of any \<^verbatim>\<open>str\<close> is outside the domain; its stray bytes are taken one
  by one.
\<close>

fun escape_str :: "string \<Rightarrow> string" where
  "escape_str [] = []"
| "escape_str (a # s) =
     (let x = (of_char a :: nat) in
      if x < 0x80 then escape_ascii a @ escape_str s
      else if 0xC0 \<le> x \<and> x < 0xE0 then
        (case s of
           b # s' \<Rightarrow>
             escape_non_ascii ((x mod 32) * 64 + (of_char b :: nat) mod 64) @ escape_str s'
         | _ \<Rightarrow> escape_non_ascii x @ escape_str s)
      else if 0xE0 \<le> x \<and> x < 0xF0 then
        (case s of
           b # c # s' \<Rightarrow>
             escape_non_ascii
               ((x mod 16) * 4096 + ((of_char b :: nat) mod 64) * 64 + (of_char c :: nat) mod 64)
               @ escape_str s'
         | _ \<Rightarrow> escape_non_ascii x @ escape_str s)
      else if 0xF0 \<le> x \<and> x < 0xF8 then
        (case s of
           b # c # d # s' \<Rightarrow>
             escape_non_ascii
               ((x mod 8) * 262144 + ((of_char b :: nat) mod 64) * 4096
                  + ((of_char c :: nat) mod 64) * 64 + (of_char d :: nat) mod 64)
               @ escape_str s'
         | _ \<Rightarrow> escape_non_ascii x @ escape_str s)
      else escape_non_ascii x @ escape_str s)"

definition encode_basestring_ascii :: "string \<Rightarrow> string" where
  "encode_basestring_ascii s = [CHR 0x22] @ escape_str s @ [CHR 0x22]"

text \<open>\<^verbatim>\<open>s.split(sep)\<close> for a separator of one character, and \<^verbatim>\<open>sep.join(parts)\<close>.\<close>

fun split_on :: "char \<Rightarrow> string \<Rightarrow> string list" where
  "split_on sep [] = [Nil]"
| "split_on sep (c # s) =
     (if c = sep then [] # split_on sep s
      else (case split_on sep s of
              [] \<Rightarrow> [c # Nil]
            | x # xs \<Rightarrow> (c # x) # xs))"

fun join :: "string \<Rightarrow> string list \<Rightarrow> string" where
  "join sep [] = []"
| "join sep [x] = x"
| "join sep (x # y # ys) = x @ sep @ join sep (y # ys)"

text \<open>
  \<^verbatim>\<open>json.dumps(j, separators=(item_sep, key_sep))\<close>. The keys of a dictionary read from
  JSON are strings.
\<close>

fun json_dumps :: "string \<Rightarrow> string \<Rightarrow> json \<Rightarrow> string" where
  "json_dumps item_sep key_sep JNull = ''null''"
| "json_dumps item_sep key_sep (JBool b) = (if b then ''true'' else ''false'')"
| "json_dumps item_sep key_sep (JInt i) = str_int i"
| "json_dumps item_sep key_sep (JStr s) = encode_basestring_ascii s"
| "json_dumps item_sep key_sep (JList xs) =
     ''['' @ join item_sep (map (json_dumps item_sep key_sep) xs) @ '']''"
| "json_dumps item_sep key_sep (JDict kvs) =
     ''{'' @ join item_sep
        (map (\<lambda>kv. encode_basestring_ascii (fst kv) @ key_sep
                    @ json_dumps item_sep key_sep (snd kv)) kvs) @ ''}''"

subsection \<open>\<^verbatim>\<open>base64.urlsafe_b64encode\<close>\<close>

definition b64_alphabet :: string where
  "b64_alphabet = ''ABCDEFGHIJKLMNOPQRSTUVWXYZabcdefghijklmnopqrstuvwxyz0123456789-_''"

definition b64_char :: "nat \<Rightarrow> char" where
  "b64_char i = b64_alphabet ! (i mod 64)"

text \<open>
  Three bytes give four characters; a last group of one or two bytes is padded with
  \<open>=\<close> to four characters, as the standard encoder does.
\<close>

fun urlsafe_b64encode :: "string \<Rightarrow> string" where
  "urlsafe_b64encode [] = []"
| "urlsafe_b64encode [a] =
     (let n = (of_char a :: nat) * 65536
      in [b64_char (n div 262144), b64_char (n div 4096), CHR ''='', CHR ''=''])"
| "urlsafe_b64encode [a, b] =
     (let n = (of_char a :: nat) * 65536 + (of_char b :: nat) * 256
      in [b64_char (n div 262144), b64_char (n div 4096), b64_char (n div 64), CHR ''=''])"
| "urlsafe_b64encode (a # b # c # s) =
     (let n = (of_char a :: nat) * 65536 + (of_char b :: nat) * 256 + (of_char c :: nat)
      in [b64_char (n div 262144), b64_char (n div 4096), b64_char (n div 64), b64_char n]
           @ urlsafe_b64encode s)"

subsection \<open>\<^verbatim>\<open>urllib.parse.quote\<close>\<close>

definition always_safe :: string where
  "always_safe = ''ABCDEFGHIJKLMNOPQRSTUVWXYZabcdefghijklmnopqrstuvwxyz0123456789_.-~''"

text \<open>
  \<^verbatim>\<open>quote(s, safe=safe)\<close>: every byte of the UTF-8 of \<open>s\<close> that is neither always safe nor
  an ASCII character of \<open>safe\<close> becomes \<open>%XX\<close>.
\<close>

definition quote :: "string \<Rightarrow> string \<Rightarrow> string" where
  "quote s safe =
     concat (map (\<lambda>c. if c \<in> set always_safe
                            \<or> (c \<in> set safe \<and> (of_char c :: nat) < 128)
                         then [c] else CHR ''%'' # hex2_upper (of_char c)) s)"

text \<open>\<^verbatim>\<open>quote_plus(s)\<close> and \<^verbatim>\<open>urlencode(d)\<close> for a dictionary of strings.\<close>

definition quote_plus :: "string \<Rightarrow> string" where
  "quote_plus s =
     (if CHR '' '' \<notin> set s then quote s ''''
      else map (\<lambda>c. if c = CHR '' '' then CHR ''+'' else c) (quote s '' ''))"

definition urlencode :: "(string \<times> string) list \<Rightarrow> string" where
  "urlencode d = join ''&'' (map (\<lambda>kv. quote_plus (fst kv) @ ''='' @ quote_plus (snd kv)) d)"

subsection \<open>Subscripts and arithmetic on values\<close>

text \<open>An exception ends a sequence of evaluations.\<close>

definition and_then :: "error + 'a \<Rightarrow> ('a \<Rightarrow> error + 'b) \<Rightarrow> error + 'b" where
  "and_then m f = (case m of Inl e \<Rightarrow> Inl e | Inr x \<Rightarrow> f x)"

text \<open>
  \<^verbatim>\<open>v[k]\<close> for a string key: only a dictionary has string subscripts, and a missing
  key raises. \<open>PyModule\<close> is a module object (the \<^verbatim>\<open>json\<close> module of the source), which
  has no subscripts at all.
\<close>

datatype pyval = PyJson json | PyModule

fun getitem :: "pyval \<Rightarrow> string \<Rightarrow> error + json" where
  "getitem (PyJson (JDict kvs)) k =
     (case map_of kvs k of None \<Rightarrow> Inl (KeyError k) | Some v \<Rightarrow> Inr v)"
| "getitem v k = Inl TypeError"

text \<open>\<^verbatim>\<open>v[k] = x\<close>: an existing key keeps its place, a new one goes last.\<close>

fun setitem :: "json \<Rightarrow> string \<Rightarrow> json \<Rightarrow> error + json" where
  "setitem (JDict kvs) k x = Inr (JDict (AList.update k x kvs))"
| "setitem v k x = Inl TypeError"

text \<open>The numeric value of a Python object, where it has one (\<^verbatim>\<open>bool\<close> is a subtype of \<^verbatim>\<open>int\<close>).\<close>

fun py_number :: "json \<Rightarrow> int option" where
  "py_number (JInt i) = Some i"
| "py_number (JBool b) = Some (if b then 1 else 0)"
| "py_number v = None"

text \<open>\<^verbatim>\<open>x >= v\<close> for a float \<open>x\<close>, and \<^verbatim>\<open>v + n\<close> for an integer \<open>n\<close>.\<close>

definition py_ge :: "rat \<Rightarrow> json \<Rightarrow> error + bool" where
  "py_ge x v = (case py_number v of None \<Rightarrow> Inl TypeError | Some i \<Rightarrow> Inr (x \<ge> of_int i))"

definition py_add_int :: "json \<Rightarrow> int \<Rightarrow> error + json" where
  "py_add_int v n = (case py_number v of None \<Rightarrow> Inl TypeError | Some i \<Rightarrow> Inr (JInt (i + n)))"

text \<open>\<^verbatim>\<open>int(x)\<close> for a float truncates towards zero.\<close>

definition py_int :: "rat \<Rightarrow> int" where
  "py_int x = (if x \<ge> 0 then \<lfloor>x\<rfloor> else \<lceil>x\<rceil>)"

text \<open>
  \<^verbatim>\<open>p / q\<close> on paths, kept as text: an absolute right operand replaces the left one.
  pathlib's removal of redundant separators is not modelled.
\<close>

definition path_join :: "string \<Rightarrow> string \<Rightarrow> string" where
  "path_join p q = (case q of CHR ''/'' # _ \<Rightarrow> q | _ \<Rightarrow> p @ ''/'' @ q)"

section \<open>The environment\<close>

text \<open>
  What the program reads from and writes to outside itself is one record. The fields
  \<open>ticks\<close>, \<open>files\<close>, \<open>fs_trace\<close> and \<open>requests\<close> change as the program runs; the others
  say how the outside answers:
  \<^item> \<open>clock w n\<close> is what the \<open>n\<close>-th call of \<^verbatim>\<open>time.time()\<close> returns, in seconds, as an
    exact number (the rounding of float addition is not modelled);
  \<^item> \<open>files\<close> holds the regular files by path, with their text; directories are not
    represented;
  \<^item> \<open>io_fails\<close> injects the failure of a file-system step, \<open>partial\<close> is how much text
    has reached the temporary file when writing fails;
  \<^item> \<open>device path\<close> is the file system that holds \<open>path\<close>: \<^verbatim>\<open>os.replace\<close> is a
    \<^verbatim>\<open>rename\<close>, which the operating system refuses across file systems;
  \<^item> \<open>json_loads\<close> is \<^verbatim>\<open>json.loads\<close> (\<open>None\<close> when it raises), \<open>gunzip\<close> is
    \<^verbatim>\<open>gzip.decompress\<close>;
  \<^item> \<open>openssl key input\<close> is the run of \<^verbatim>\<open>openssl dgst -sign keyfile -sha256 -binary\<close> on
    the standard input \<open>input\<close>: the completed process, or the error raised when the
    command cannot be started;
  \<^item> \<open>server\<close> answers a request: a response, or the error \<^verbatim>\<open>urlopen\<close> raises.
\<close>

record completed_process =
  returncode :: int
  stdout :: string
  stderr :: string

record request =
  req_url :: string
  req_headers :: "(string \<times> string) list"
  req_data :: "string option"
  req_method :: "string option"

record response =
  content_encoding :: "string option"
  body :: string

datatype io_step = Mkdir | OpenRead | MkTemp | Dump | Flush | Fsync | Replace

datatype fs_event =
    Created string
  | Written string string
  | Flushed string
  | Synced string
  | Replaced string string
  | Unlinked string

record world =
  clock :: "nat \<Rightarrow> rat"
  ticks :: nat
  environ :: "string \<rightharpoonup> string"
  home :: string
  gettempdir :: string
  tempname :: string
  files :: "string \<rightharpoonup> string"
  fs_trace :: "fs_event list"
  io_fails :: "io_step \<Rightarrow> bool"
  partial :: nat
  device :: "string \<Rightarrow> nat"
  json_loads :: "string \<Rightarrow> json option"
  gunzip :: "string \<Rightarrow> string option"
  openssl :: "string \<Rightarrow> string \<Rightarrow> error + completed_process"
  server :: "request \<Rightarrow> error + response"
  requests :: "request list"

text \<open>\<^verbatim>\<open>time.time()\<close>\<close>

definition time_time :: "world \<Rightarrow> rat \<times> world" where
  "time_time w = (clock w (ticks w), w\<lparr>ticks := ticks w + 1\<rparr>)"

text \<open>The effect of one file-system event, which is also recorded.\<close>

fun fs_effect :: "fs_event \<Rightarrow> (string \<rightharpoonup> string) \<Rightarrow> (string \<rightharpoonup> string)" where
  "fs_effect (Created n) fs = fs(n \<mapsto> [])"
| "fs_effect (Written n s) fs = fs(n \<mapsto> s)"
| "fs_effect (Flushed n) fs = fs"
| "fs_effect (Synced n) fs = fs"
| "fs_effect (Replaced a b) fs = (if a = b then fs else (fs(b := fs a))(a := None))"
| "fs_effect (Unlinked n) fs = fs(n := None)"

definition fs_do :: "fs_event \<Rightarrow> world \<Rightarrow> world" where
  "fs_do ev w = w\<lparr>files := fs_effect ev (files w), fs_trace := fs_trace w @ [ev]\<rparr>"

section \<open>The helpers of \<^verbatim>\<open>ugcs.py\<close>\<close>

definition json_to_b64 :: "json \<Rightarrow> string" where
  "json_to_b64 j = (let s = json_dumps '','' '':'' j in urlsafe_b64encode s)"

text \<open>
  \<^verbatim>\<open>_jwt_sign_b64\<close>: the key goes to an anonymous temporary file, the command runs on
  \<open>base\<close>, and its standard output is encoded. Neither \<open>returncode\<close> nor \<open>stderr\<close> is
  read.
\<close>

definition jwt_sign_b64 :: "world \<Rightarrow> string \<Rightarrow> string \<Rightarrow> error + string" where
  "jwt_sign_b64 w base key =
     (case openssl w key base of
        Inl e \<Rightarrow> Inl e
      | Inr p \<Rightarrow> Inr (urlsafe_b64encode (stdout p)))"

definition urlopen_with_decoded_response :: "request \<Rightarrow> world \<Rightarrow> (error + string) \<times> world" where
  "urlopen_with_decoded_response request w =
     (let w' = w\<lparr>requests := requests w @ [request]\<rparr> in
      case server w request of
        Inl e \<Rightarrow> (Inl e, w')
      | Inr r \<Rightarrow>
          if content_encoding r = Some ''gzip'' then
            (case gunzip w (body r) of
               None \<Rightarrow> (Inl BadGzipFile, w')
             | Some d \<Rightarrow> (Inr d, w'))
          else (Inr (body r), w'))"

definition xdg_cache_home :: "world \<Rightarrow> string" where
  "xdg_cache_home w =
     (case environ w ''XDG_CACHE_HOME'' of
        None \<Rightarrow> path_join (home w) ''.cache''
      | Some v \<Rightarrow> if v = [] then path_join (home w) ''.cache'' else v)"

section \<open>\<^verbatim>\<open>AccessTokenProvider\<close>\<close>

record provider =
  account :: string
  key :: string
  kid :: json
  expire :: int
  token_url :: string
  cached_token :: json
  cached_token_path :: string

definition TOKEN_URL :: string where
  "TOKEN_URL = ''https://oauth2.googleapis.com/token''"

text \<open>
  \<^verbatim>\<open>__init__(account, key, kid, expire, token_url)\<close> on string arguments \<open>account\<close>, \<open>key\<close>
  and \<open>token_url\<close>. The directories that \<^verbatim>\<open>mkdir\<close> makes are not represented, so the
  files are left as they are; \<^verbatim>\<open>is_file()\<close> is the presence of the path among the
  regular files. Nothing catches what \<^verbatim>\<open>json.load\<close> raises.
\<close>

definition AccessTokenProvider_init ::
  "string \<Rightarrow> string \<Rightarrow> json \<Rightarrow> int \<Rightarrow> string \<Rightarrow> world \<Rightarrow> error + provider" where
  "AccessTokenProvider_init acc k kd ex turl w =
     (let self = \<lparr>account = acc, key = k, kid = kd, expire = ex, token_url = turl,
                  cached_token = JNull,
                  cached_token_path =
                    path_join (path_join (xdg_cache_home w) ''ugcs'') (acc @ ''.token'')\<rparr>
      in if io_fails w Mkdir then Inl OSError
         else
           (case files w (cached_token_path self) of
              None \<Rightarrow> Inr self
            | Some text \<Rightarrow>
                if io_fails w OpenRead then Inl OSError
                else
                  (case json_loads w text of
                     None \<Rightarrow> Inl JSONDecodeError
                   | Some j \<Rightarrow> Inr (self\<lparr>cached_token := j\<rparr>))))"

text \<open>
  The argument of \<^verbatim>\<open>from_service_account_json\<close> is a \<^verbatim>\<open>str\<close>, a \<^verbatim>\<open>Path\<close> or an
  already parsed structure.
\<close>

datatype json_obj = Str string | Path string | Parsed json

text \<open>A string argument of the constructor taken from a document.\<close>

fun as_str :: "json \<Rightarrow> error + string" where
  "as_str (JStr s) = Inr s"
| "as_str v = Inl TypeError"

text \<open>
  The last statement of \<^verbatim>\<open>from_service_account_json\<close>: the four subscripts of \<open>j\<close>, left
  to right, then the constructor with \<open>expire\<close> at its default 60. A \<^verbatim>\<open>client_email\<close>
  that is not a string raises \<^verbatim>\<open>TypeError\<close> in the constructor; for a \<^verbatim>\<open>private_key\<close>
  or \<^verbatim>\<open>token_uri\<close> that is not a string the source raises it at the first use only,
  the model here.
\<close>

definition provider_of_document :: "pyval \<Rightarrow> world \<Rightarrow> error + provider" where
  "provider_of_document j w =
     and_then (getitem j ''client_email'') (\<lambda>ce.
     and_then (getitem j ''private_key'') (\<lambda>pk.
     and_then (getitem j ''private_key_id'') (\<lambda>pkid.
     and_then (getitem j ''token_uri'') (\<lambda>turi.
     and_then (as_str ce) (\<lambda>acc.
     and_then (as_str pk) (\<lambda>k.
     and_then (as_str turi) (\<lambda>turl.
       AccessTokenProvider_init acc k pkid 60 turl w)))))))"

text \<open>
  \<^verbatim>\<open>from_service_account_json\<close>. A string that parses stays a string, a string that
  does not parse becomes a \<^verbatim>\<open>Path\<close>. The second \<^verbatim>\<open>if\<close> then reads the file of a
  \<^verbatim>\<open>Path\<close>, and in its \<^verbatim>\<open>else\<close> branch binds \<open>j\<close> to the \<^verbatim>\<open>json\<close> module
  (\<^verbatim>\<open>j = json\<close>).
\<close>

definition from_service_account_json :: "json_obj \<Rightarrow> world \<Rightarrow> error + provider" where
  "from_service_account_json json_obj w =
     (let json_obj' =
            (case json_obj of
               Str s \<Rightarrow> (case json_loads w s of Some j \<Rightarrow> Str s | None \<Rightarrow> Path s)
             | _ \<Rightarrow> json_obj)
      in case json_obj' of
           Path f \<Rightarrow>
             (case files w f of
                None \<Rightarrow> Inl FileNotFoundError
              | Some text \<Rightarrow>
                  (case json_loads w text of
                     None \<Rightarrow> Inl JSONDecodeError
                   | Some j \<Rightarrow> provider_of_document (PyJson j) w))
         | _ \<Rightarrow> provider_of_document PyModule w)"

subsection \<open>The assertion\<close>

definition jwt_header :: "provider \<Rightarrow> json" where
  "jwt_header self =
     JDict ([(''alg'', JStr ''RS256''), (''typ'', JStr ''JWT'')]
            @ (if kid self \<noteq> JNull then [(''kid'', kid self)] else []))"

definition jwt_claim :: "provider \<Rightarrow> int \<Rightarrow> json" where
  "jwt_claim self unix_time =
     JDict [(''iss'', JStr (account self)),
            (''scope'', JStr ''https://www.googleapis.com/auth/devstorage.read_write''),
            (''aud'', JStr ''https://oauth2.googleapis.com/token''),
            (''iat'', JInt unix_time),
            (''exp'', JInt (unix_time + expire self))]"

text \<open>The signing input: \<^verbatim>\<open>payload\<close> in \<^verbatim>\<open>_create_jwt\<close>.\<close>

definition jwt_payload :: "provider \<Rightarrow> int \<Rightarrow> string" where
  "jwt_payload self unix_time =
     json_to_b64 (jwt_header self) @ ''.'' @ json_to_b64 (jwt_claim self unix_time)"

definition create_jwt :: "provider \<Rightarrow> world \<Rightarrow> (error + string) \<times> world" where
  "create_jwt self w =
     (let (t, w1) = time_time w;
          unix_time = py_int t;
          payload = jwt_payload self unix_time
      in case jwt_sign_b64 w1 payload (key self) of
           Inl e \<Rightarrow> (Inl e, w1)
         | Inr sig \<Rightarrow> (Inr (payload @ ''.'' @ sig), w1))"

subsection \<open>The token exchange\<close>

definition token_request :: "provider \<Rightarrow> string \<Rightarrow> request" where
  "token_request self assertion =
     \<lparr>req_url = token_url self,
      req_headers = [(''Content-Type'', ''application/x-www-form-urlencoded''),
                     (''Accept-Encoding'', ''gzip, identity'')],
      req_data = Some (urlencode [(''grant_type'', ''urn:ietf:params:oauth:grant-type:jwt-bearer''),
                                  (''assertion'', assertion)]),
      req_method = None\<rparr>"

definition request_new_token :: "provider \<Rightarrow> world \<Rightarrow> (error + json) \<times> world" where
  "request_new_token self w =
     (case create_jwt self w of
        (Inl e, w1) \<Rightarrow> (Inl e, w1)
      | (Inr assertion, w1) \<Rightarrow>
          (case urlopen_with_decoded_response (token_request self assertion) w1 of
             (Inl e, w2) \<Rightarrow> (Inl e, w2)
           | (Inr response_data, w2) \<Rightarrow>
               (case json_loads w2 response_data of
                  None \<Rightarrow> (Inl JSONDecodeError, w2)
                | Some j \<Rightarrow> (Inr j, w2))))"

subsection \<open>Writing the cache file\<close>

text \<open>
  Lines 148 to 158 of \<^verbatim>\<open>request_token\<close>. \<^verbatim>\<open>NamedTemporaryFile\<close> is called without
  \<^verbatim>\<open>dir\<close>, so the file is made in \<^verbatim>\<open>tempfile.gettempdir()\<close>, under a name that must not
  exist yet; its failure is outside the \<^verbatim>\<open>try\<close>. Inside the \<^verbatim>\<open>try\<close>, each failing step
  unlinks the temporary file and raises again.
\<close>

definition store_cached_token :: "provider \<Rightarrow> world \<Rightarrow> (error + unit) \<times> world" where
  "store_cached_token self w =
     (let name = path_join (gettempdir w) (tempname w) in
      if io_fails w MkTemp \<or> files w name \<noteq> None then (Inl OSError, w)
      else
        let text = json_dumps '', '' '': '' (cached_token self);
            w1 = fs_do (Created name) w
        in if io_fails w Dump then
             (Inl OSError, fs_do (Unlinked name) (fs_do (Written name (take (partial w) text)) w1))
           else
             let w2 = fs_do (Written name text) w1
             in if io_fails w Flush then (Inl OSError, fs_do (Unlinked name) w2)
                else
                  let w3 = fs_do (Flushed name) w2
                  in if io_fails w Fsync then (Inl OSError, fs_do (Unlinked name) w3)
                     else
                       let w4 = fs_do (Synced name) w3
                       in if io_fails w Replace
                             \<or> device w name \<noteq> device w (cached_token_path self)
                          then (Inl OSError, fs_do (Unlinked name) w4)
                          else (Inr (), fs_do (Replaced name (cached_token_path self)) w4))"

subsection \<open>\<^verbatim>\<open>request_token\<close>\<close>

text \<open>
  The first \<^verbatim>\<open>if\<close>: a cached token is dropped when \<^verbatim>\<open>time.time() + 3\<close> has reached its
  \<^verbatim>\<open>expires_at\<close>. The clock is read only when there is a cached token.
\<close>

definition drop_expired :: "provider \<Rightarrow> world \<Rightarrow> (error + unit) \<times> provider \<times> world" where
  "drop_expired self w =
     (if cached_token self \<noteq> JNull then
        (let (t, w1) = time_time w in
         case getitem (PyJson (cached_token self)) ''expires_at'' of
           Inl e \<Rightarrow> (Inl e, self, w1)
         | Inr ea \<Rightarrow>
             (case py_ge (t + 3) ea of
                Inl e \<Rightarrow> (Inl e, self, w1)
              | Inr expired \<Rightarrow>
                  (Inr (), if expired then self\<lparr>cached_token := JNull\<rparr> else self, w1)))
      else (Inr (), self, w))"

text \<open>
  The second \<^verbatim>\<open>if\<close>: the response becomes the cached token as soon as it is parsed,
  then gets its \<^verbatim>\<open>expires_at\<close>, then is written to the cache file.
\<close>

definition refresh :: "provider \<Rightarrow> world \<Rightarrow> (error + unit) \<times> provider \<times> world" where
  "refresh self w =
     (case request_new_token self w of
        (Inl e, w1) \<Rightarrow> (Inl e, self, w1)
      | (Inr tok, w1) \<Rightarrow>
          (let self1 = self\<lparr>cached_token := tok\<rparr> in
           case getitem (PyJson tok) ''expires_in'' of
             Inl e \<Rightarrow> (Inl e, self1, w1)
           | Inr ei \<Rightarrow>
               (let (t, w2) = time_time w1 in
                case py_add_int ei (py_int t) of
                  Inl e \<Rightarrow> (Inl e, self1, w2)
                | Inr ea \<Rightarrow>
                    (case setitem tok ''expires_at'' ea of
                       Inl e \<Rightarrow> (Inl e, self1, w2)
                     | Inr tok' \<Rightarrow>
                         (let self2 = self1\<lparr>cached_token := tok'\<rparr> in
                          case store_cached_token self2 w2 of
                            (Inl e, w3) \<Rightarrow> (Inl e, self2, w3)
                          | (Inr u, w3) \<Rightarrow> (Inr (), self2, w3))))))"

definition request_token :: "provider \<Rightarrow> world \<Rightarrow> (error + json) \<times> provider \<times> world" where
  "request_token self w =
     (case drop_expired self w of
        (Inl e, self1, w1) \<Rightarrow> (Inl e, self1, w1)
      | (Inr u, self1, w1) \<Rightarrow>
          if cached_token self1 = JNull then
            (case refresh self1 w1 of
               (Inl e, self2, w2) \<Rightarrow> (Inl e, self2, w2)
             | (Inr u', self2, w2) \<Rightarrow> (Inr (cached_token self2), self2, w2))
          else (Inr (cached_token self1), self1, w1))"

section \<open>\<^verbatim>\<open>Bucket\<close>\<close>

text \<open>
  A bucket is its name and a reference to a token provider; the provider's state is
  passed in and out of every operation. Header names are kept as the source writes
  them (urllib changes their capitalisation, which HTTP does not distinguish).
\<close>

definition STORAGE_URL :: string where
  "STORAGE_URL = ''https://storage.googleapis.com/storage/v1''"

definition UPLOAD_URL :: string where
  "UPLOAD_URL = ''https://storage.googleapis.com/upload/storage/v1''"

definition add_header :: "string \<Rightarrow> string \<Rightarrow> request \<Rightarrow> request" where
  "add_header h v request = request\<lparr>req_headers := AList.update h v (req_headers request)\<rparr>"

definition authorized_request ::
  "string \<Rightarrow> provider \<Rightarrow> world \<Rightarrow> (error + request) \<times> provider \<times> world" where
  "authorized_request u self w =
     (case request_token self w of
        (Inl e, self1, w1) \<Rightarrow> (Inl e, self1, w1)
      | (Inr token, self1, w1) \<Rightarrow>
          (case getitem (PyJson token) ''token_type'' of Inl e \<Rightarrow> (Inl e, self1, w1) | Inr ttype \<Rightarrow>
          (case as_str ttype of Inl e \<Rightarrow> (Inl e, self1, w1) | Inr token_type \<Rightarrow>
          (case getitem (PyJson token) ''access_token'' of Inl e \<Rightarrow> (Inl e, self1, w1) | Inr atok \<Rightarrow>
          (case as_str atok of Inl e \<Rightarrow> (Inl e, self1, w1) | Inr access_token \<Rightarrow>
             (Inr \<lparr>req_url = u,
                   req_headers = [(''Authorization'', token_type @ '' '' @ access_token),
                                  (''Accept-Encoding'', ''gzip, identity'')],
                   req_data = None,
                   req_method = None\<rparr>, self1, w1))))))"

text \<open>The two ends of an operation: the body as it is, or parsed by \<^verbatim>\<open>json.loads\<close>.\<close>

definition send :: "request \<Rightarrow> provider \<Rightarrow> world \<Rightarrow> (error + string) \<times> provider \<times> world" where
  "send request self w =
     (case urlopen_with_decoded_response request w of (r, w') \<Rightarrow> (r, self, w'))"

definition send_json :: "request \<Rightarrow> provider \<Rightarrow> world \<Rightarrow> (error + json) \<times> provider \<times> world" where
  "send_json request self w =
     (case urlopen_with_decoded_response request w of
        (Inl e, w') \<Rightarrow> (Inl e, self, w')
      | (Inr response_data, w') \<Rightarrow>
          (case json_loads w' response_data of
             None \<Rightarrow> (Inl JSONDecodeError, self, w')
           | Some j \<Rightarrow> (Inr j, self, w')))"

definition Bucket_list ::
  "string \<Rightarrow> string option \<Rightarrow> provider \<Rightarrow> world \<Rightarrow> (error + json) \<times> provider \<times> world" where
  "Bucket_list name prefix self w =
     (let u = STORAGE_URL @ ''/b/'' @ name @ ''/o'';
          u' = (case prefix of
                  None \<Rightarrow> u
                | Some pf \<Rightarrow> if pf = [] then u else u @ ''?'' @ urlencode [(''prefix'', pf)])
      in case authorized_request u' self w of
           (Inl e, self1, w1) \<Rightarrow> (Inl e, self1, w1)
         | (Inr request, self1, w1) \<Rightarrow> send_json request self1 w1)"

definition Bucket_put ::
  "string \<Rightarrow> string \<Rightarrow> string \<Rightarrow> string \<Rightarrow> provider \<Rightarrow> world
     \<Rightarrow> (error + json) \<times> provider \<times> world" where
  "Bucket_put name path dat content_type self w =
     (case authorized_request
             (UPLOAD_URL @ ''/b/'' @ name @ ''/o?''
                @ urlencode [(''uploadType'', ''media''), (''name'', path)]) self w of
        (Inl e, self1, w1) \<Rightarrow> (Inl e, self1, w1)
      | (Inr request, self1, w1) \<Rightarrow>
          send_json
            ((add_header ''Content-Transfer-Encoding'' ''binary''
               (add_header ''Content-Type'' content_type request))\<lparr>req_data := Some dat\<rparr>)
            self1 w1)"

definition Bucket_get ::
  "string \<Rightarrow> string \<Rightarrow> provider \<Rightarrow> world \<Rightarrow> (error + string) \<times> provider \<times> world" where
  "Bucket_get name path self w =
     (case authorized_request
             (STORAGE_URL @ ''/b/'' @ name @ ''/o/'' @ quote path [] @ ''?alt=media'') self w of
        (Inl e, self1, w1) \<Rightarrow> (Inl e, self1, w1)
      | (Inr request, self1, w1) \<Rightarrow> send request self1 w1)"

definition Bucket_get_metadata ::
  "string \<Rightarrow> string \<Rightarrow> provider \<Rightarrow> world \<Rightarrow> (error + json) \<times> provider \<times> world" where
  "Bucket_get_metadata name path self w =
     (case authorized_request
             (STORAGE_URL @ ''/b/'' @ name @ ''/o/'' @ quote path []) self w of
        (Inl e, self1, w1) \<Rightarrow> (Inl e, self1, w1)
      | (Inr request, self1, w1) \<Rightarrow> send_json request self1 w1)"

definition Bucket_delete ::
  "string \<Rightarrow> string \<Rightarrow> provider \<Rightarrow> world \<Rightarrow> (error + unit) \<times> provider \<times> world" where
  "Bucket_delete name path self w =
     (case authorized_request
             (STORAGE_URL @ ''/b/'' @ name @ ''/o/'' @ quote path []) self w of
        (Inl e, self1, w1) \<Rightarrow> (Inl e, self1, w1)
      | (Inr request, self1, w1) \<Rightarrow>
          (case send (request\<lparr>req_method := Some ''DELETE''\<rparr>) self1 w1 of
             (Inl e, self2, w2) \<Rightarrow> (Inl e, self2, w2)
           | (Inr d, self2, w2) \<Rightarrow> (Inr (), self2, w2)))"

section \<open>Conditions on the state and the environment\<close>

text \<open>
  Every step of writing the cache file succeeds: the temporary name is free, no step
  fails, and the temporary file is on the file system of the cache file.
\<close>

definition can_store :: "provider \<Rightarrow> world \<Rightarrow> bool" where
  "can_store self w \<longleftrightarrow>
     \<not> io_fails w MkTemp \<and> files w (path_join (gettempdir w) (tempname w)) = None
     \<and> \<not> io_fails w Dump \<and> \<not> io_fails w Flush \<and> \<not> io_fails w Fsync
     \<and> \<not> io_fails w Replace
     \<and> device w (path_join (gettempdir w) (tempname w)) = device w (cached_token_path self)"

text \<open>
  The provider holds no token, or a token whose \<^verbatim>\<open>expires_at\<close> is a number that the next
  clock reading plus 3 seconds has reached: within 3 seconds of now, or in the past.
\<close>

definition stale :: "provider \<Rightarrow> world \<Rightarrow> bool" where
  "stale self w \<longleftrightarrow>
     cached_token self = JNull
     \<or> (case getitem (PyJson (cached_token self)) ''expires_at'' of
           Inl e \<Rightarrow> False
         | Inr ea \<Rightarrow>
             (case py_number ea of
                None \<Rightarrow> False
              | Some n \<Rightarrow> of_int n \<le> clock w (ticks w) + 3))"

text \<open>
  The provider holds a token whose \<^verbatim>\<open>expires_at\<close> is a number more than 3 seconds after
  the next clock reading.
\<close>

definition fresh :: "provider \<Rightarrow> world \<Rightarrow> bool" where
  "fresh self w \<longleftrightarrow>
     (case getitem (PyJson (cached_token self)) ''expires_at'' of
        Inl e \<Rightarrow> False
      | Inr ea \<Rightarrow>
          (case py_number ea of
             None \<Rightarrow> False
           | Some n \<Rightarrow> clock w (ticks w) + 3 < of_int n))"

text \<open>
  The number of clock readings taken when \<^verbatim>\<open>request_token\<close> starts the exchange: one
  more than before the call, for the comparison, if there was a cached token.
\<close>

definition ticks_at_exchange :: "provider \<Rightarrow> world \<Rightarrow> nat" where
  "ticks_at_exchange self w = (if cached_token self = JNull then ticks w else ticks w + 1)"

section \<open>The five bucket operations together\<close>

text \<open>
  The provider and the environment that each of \<^verbatim>\<open>list\<close>, \<^verbatim>\<open>put\<close>, \<^verbatim>\<open>get\<close>,
  \<^verbatim>\<open>get_metadata\<close> and \<^verbatim>\<open>delete\<close> leaves, started in the same state.
\<close>

definition bucket_runs ::
  "string \<Rightarrow> string option \<Rightarrow> string \<Rightarrow> string \<Rightarrow> string \<Rightarrow> provider \<Rightarrow> world
     \<Rightarrow> (provider \<times> world) list" where
  "bucket_runs name prefix path dat content_type self w =
     [snd (Bucket_list name prefix self w),
      snd (Bucket_put name path dat content_type self w),
      snd (Bucket_get name path self w),
      snd (Bucket_get_metadata name path self w),
      snd (Bucket_delete name path self w)]"

section \<open>Example states\<close>

text \<open>
  A token response as the token endpoint sends it, the text that \<^verbatim>\<open>json.dump\<close> writes
  for it, and \<^verbatim>\<open>json.loads\<close> on the texts that the examples use: the text of a document
  parses to the document, and no other text of the examples is JSON.
\<close>

definition example_response :: json where
  "example_response =
     JDict [(''access_token'', JStr ''ya29.c''), (''token_type'', JStr ''Bearer''),
            (''expires_in'', JInt 3600)]"

definition example_token :: json where
  "example_token =
     JDict [(''access_token'', JStr ''ya29.c''), (''token_type'', JStr ''Bearer''),
            (''expires_in'', JInt 3600), (''expires_at'', JInt 4600)]"

text \<open>A service-account document.\<close>

definition example_document :: json where
  "example_document =
     JDict [(''client_email'', JStr ''sa@x''), (''private_key'', JStr ''PEM''),
            (''private_key_id'', JStr ''4f1c''),
            (''token_uri'', JStr ''https://oauth2.googleapis.com/token'')]"

definition example_loads :: "string \<Rightarrow> json option" where
  "example_loads s =
     (if s = json_dumps '', '' '': '' example_response then Some example_response
      else if s = json_dumps '', '' '': '' example_token then Some example_token
      else if s = json_dumps '', '' '': '' example_document then Some example_document
      else None)"

text \<open>
  A provider without a cached token, and an environment whose clock advances by half
  a second at each reading from 1000, whose signing command succeeds with a
  four-byte output, and whose server answers every request with the token response.
\<close>

definition example_provider :: provider where
  "example_provider =
     \<lparr>account = ''sa@x'', key = ''PEM'', kid = JStr ''4f1c'', expire = 60,
      token_url = TOKEN_URL, cached_token = JNull,
      cached_token_path = ''/home/u/.cache/ugcs/sa@x.token''\<rparr>"

definition example_world :: world where
  "example_world =
     \<lparr>clock = (\<lambda>n. 1000 + of_nat n / 2), ticks = 0, environ = Map.empty,
      home = ''/home/u'', gettempdir = ''/tmp'', tempname = ''tmpk2j9x1ab'',
      files = Map.empty, fs_trace = [], io_fails = (\<lambda>s. False), partial = 0,
      device = (\<lambda>p. 0), json_loads = example_loads, gunzip = (\<lambda>s. None),
      openssl = (\<lambda>k b. Inr \<lparr>returncode = 0,
                                stdout = [CHR 0x01, CHR 0x02, CHR 0x03, CHR 0x04],
                                stderr = []\<rparr>),
      server = (\<lambda>r. Inr \<lparr>content_encoding = None,
                             body = json_dumps '', '' '': '' example_response\<rparr>),
      requests = []\<rparr>"

text \<open>A signing command that fails: exit status 1, nothing on its standard output.\<close>

definition failing_openssl :: "string \<Rightarrow> string \<Rightarrow> error + completed_process" where
  "failing_openssl k b = Inr \<lparr>returncode = 1, stdout = [], stderr = ''unable to load key''\<rparr>"

text \<open>The assertion that the example provider gets in the example environment.\<close>

definition example_header_b64 :: string where
  "example_header_b64 = ''eyJhbGciOiJSUzI1NiIsInR5cCI6IkpXVCIsImtpZCI6IjRmMWMifQ==''"

definition example_claim_b64 :: string where
  "example_claim_b64 = ''eyJpc3MiOiJzYUB4Iiwic2NvcGUiOiJodHRwczovL3d3dy5nb29nbGVhcGlzLmNvbS9hdXRoL2RldnN0b3JhZ2UucmVhZF93cml0ZSIsImF1ZCI6Imh0dHBzOi8vb2F1dGgyLmdvb2dsZWFwaXMuY29tL3Rva2VuIiwiaWF0IjoxMDAwLCJleHAiOjEwNjB9''"

definition example_assertion :: string where
  "example_assertion = example_header_b64 @ ''.'' @ example_claim_b64 @ ''.'' @ ''AQIDBA==''"

text \<open>The example environment with the service-account document in a file.\<close>

definition example_world_sa :: world where
  "example_world_sa =
     example_world\<lparr>files := [''/etc/sa.json'' \<mapsto> json_dumps '', '' '': '' example_document]\<rparr>"

text \<open>
  The example provider holding the example token, which expires at 4600, and the
  example environment at a later time, from 5000 on.
\<close>

definition caching_provider :: provider where
  "caching_provider = example_provider\<lparr>cached_token := example_token\<rparr>"


text \<open>
  The example environment with \<open>/tmp\<close> on a file system of its own, as a tmpfs is.
\<close>

definition crossdev_world :: world where
  "crossdev_world = example_world\<lparr>device := (\<lambda>p. if take 5 p = ''/tmp/'' then 1 else 0)\<rparr>"


section \<open>Properties\<close>

subsection \<open>The encoders\<close>

lemma length_b64_alphabet: "length b64_alphabet = 64"
  by (simp add: b64_alphabet_def)

lemma b64_char_in_alphabet: "b64_char i \<in> set b64_alphabet"
  unfolding b64_char_def by (rule nth_mem) (simp add: length_b64_alphabet)

lemma urlsafe_b64encode_chars:
  "set (urlsafe_b64encode s) \<subseteq> insert CHR ''='' (set b64_alphabet)"
  by (induction s rule: urlsafe_b64encode.induct) (auto simp: Let_def b64_char_in_alphabet)

lemma dot_not_in_b64: "CHR ''.'' \<notin> set (urlsafe_b64encode s)"
proof -
  have "CHR ''.'' \<notin> insert CHR ''='' (set b64_alphabet)"
    by (simp add: b64_alphabet_def)
  then show ?thesis using urlsafe_b64encode_chars by blast
qed

text \<open>The output is padded: its length is four characters for every three bytes begun.\<close>

lemma length_urlsafe_b64encode: "length (urlsafe_b64encode s) = 4 * ((length s + 2) div 3)"
proof (induction s rule: urlsafe_b64encode.induct)
  case (4 a b c s)
  have "(length (a # b # c # s) + 2) div 3 = Suc ((length s + 2) div 3)"
    by simp
  with 4 show ?case by (simp add: Let_def)
qed (simp_all add: Let_def)

lemma split_on_no_sep: "sep \<notin> set a \<Longrightarrow> split_on sep a = [a]"
  by (induction a) auto

lemma split_on_append: "sep \<notin> set a \<Longrightarrow> split_on sep (a @ sep # r) = a # split_on sep r"
  by (induction a) (auto split: list.splits)

lemma split_on_three_parts:
  "split_on CHR ''.''
     (urlsafe_b64encode a @ ''.'' @ urlsafe_b64encode b @ ''.'' @ urlsafe_b64encode c)
   = [urlsafe_b64encode a, urlsafe_b64encode b, urlsafe_b64encode c]"
  by (simp add: split_on_append split_on_no_sep dot_not_in_b64)

subsection \<open>The assertion signer\<close>

text \<open>\<^verbatim>\<open>_create_jwt\<close> reads the clock once and runs the signing command on the payload.\<close>

lemma create_jwt_eq:
  "create_jwt self w =
     (case openssl w (key self) (jwt_payload self (py_int (clock w (ticks w)))) of
        Inl e \<Rightarrow> (Inl e, w\<lparr>ticks := ticks w + 1\<rparr>)
      | Inr p \<Rightarrow> (Inr (jwt_payload self (py_int (clock w (ticks w))) @ ''.''
                        @ urlsafe_b64encode (stdout p)), w\<lparr>ticks := ticks w + 1\<rparr>))"
  by (simp add: create_jwt_def time_time_def jwt_sign_b64_def split: sum.splits)

lemma create_jwt_Inr:
  assumes "create_jwt self w = (Inr tok, w')"
  shows "\<exists>p. openssl w (key self) (jwt_payload self (py_int (clock w (ticks w)))) = Inr p
           \<and> tok = jwt_payload self (py_int (clock w (ticks w))) @ ''.''
                   @ urlsafe_b64encode (stdout p)"
  using assms by (auto simp: create_jwt_eq split: sum.splits)

lemma split_on_jwt:
  "split_on CHR ''.'' (jwt_payload self t @ ''.'' @ urlsafe_b64encode s)
     = [json_to_b64 (jwt_header self), json_to_b64 (jwt_claim self t), urlsafe_b64encode s]"
  using split_on_three_parts by (simp add: jwt_payload_def json_to_b64_def)

text \<open>
  C10. The signing helper reads neither the exit status nor the error output of the
  signing command: whenever the command has run, whatever its exit status, the helper
  returns the url-safe base64 text of the bytes on its standard output (the empty text
  for no bytes) and raises nothing. \<^verbatim>\<open>_create_jwt\<close> then still returns a token of three
  dot-separated parts, the last being that text.
\<close>

theorem signing_failure_is_not_reported:
  assumes "openssl w k base = Inr p"
  shows "jwt_sign_b64 w base k = Inr (urlsafe_b64encode (stdout p))
       \<and> (k = key self \<longrightarrow> base = jwt_payload self (py_int (clock w (ticks w))) \<longrightarrow>
            fst (create_jwt self w) = Inr (base @ ''.'' @ urlsafe_b64encode (stdout p))
          \<and> split_on CHR ''.'' (base @ ''.'' @ urlsafe_b64encode (stdout p))
              = [json_to_b64 (jwt_header self),
                 json_to_b64 (jwt_claim self (py_int (clock w (ticks w)))),
                 urlsafe_b64encode (stdout p)])"
proof -
  have sign: "jwt_sign_b64 w base k = Inr (urlsafe_b64encode (stdout p))"
    using assms by (simp add: jwt_sign_b64_def)
  show ?thesis
    using assms sign split_on_jwt by (auto simp: create_jwt_eq)
qed

theorem signing_failure_is_not_reported_witness:
  "openssl (example_world\<lparr>openssl := failing_openssl\<rparr>) ''PEM''
       (jwt_payload example_provider 1000)
     = Inr \<lparr>returncode = 1, stdout = [], stderr = ''unable to load key''\<rparr>
   \<and> jwt_sign_b64 (example_world\<lparr>openssl := failing_openssl\<rparr>)
       (jwt_payload example_provider 1000) ''PEM''
     = Inr []
   \<and> fst (create_jwt example_provider (example_world\<lparr>openssl := failing_openssl\<rparr>))
     = Inr (jwt_payload example_provider 1000 @ ''.'')
   \<and> split_on CHR ''.'' (jwt_payload example_provider 1000 @ ''.'')
     = [json_to_b64 (jwt_header example_provider),
        json_to_b64 (jwt_claim example_provider 1000), []]"
  using signing_failure_is_not_reported
    [of "example_world\<lparr>openssl := failing_openssl\<rparr>" "''PEM''"
        "jwt_payload example_provider 1000"
        "\<lparr>returncode = 1, stdout = [], stderr = ''unable to load key''\<rparr>" example_provider]
  by (simp add: example_world_def example_provider_def failing_openssl_def py_int_def)

lemmas eval_text = encode_basestring_ascii_def escape_ascii_def b64_char_def b64_alphabet_def
  str_int_def str_nat.simps

lemma example_header_b64:
  "urlsafe_b64encode (json_dumps '','' '':'' (jwt_header example_provider)) = example_header_b64"
  by (simp add: example_provider_def jwt_header_def example_header_b64_def eval_text)

lemma example_claim_b64:
  "urlsafe_b64encode (json_dumps '','' '':'' (jwt_claim example_provider 1000)) = example_claim_b64"
  by (simp add: example_provider_def jwt_claim_def example_claim_b64_def eval_text)

lemma example_time: "py_int (clock example_world (ticks example_world)) = 1000"
  by (simp add: example_world_def py_int_def)

lemma create_jwt_example:
  "create_jwt example_provider example_world = (Inr example_assertion, example_world\<lparr>ticks := 1\<rparr>)"
proof -
  have run: "openssl example_world k b
      = Inr \<lparr>returncode = 0, stdout = [CHR 0x01, CHR 0x02, CHR 0x03, CHR 0x04], stderr = []\<rparr>"
    for k b
    by (simp add: example_world_def)
  have sig: "urlsafe_b64encode [CHR 0x01, CHR 0x02, CHR 0x03, CHR 0x04] = ''AQIDBA==''"
    by (simp add: b64_char_def b64_alphabet_def)
  have tick: "example_world\<lparr>ticks := ticks example_world + 1\<rparr> = example_world\<lparr>ticks := 1\<rparr>"
    by (simp add: example_world_def)
  show ?thesis
    unfolding create_jwt_eq example_time run tick
    by (simp only: sum.case completed_process.select_convs sig jwt_payload_def
          json_to_b64_def Let_def example_header_b64 example_claim_b64 example_assertion_def
          append_assoc)
qed

lemma split_example_assertion:
  "split_on CHR ''.'' example_assertion = [example_header_b64, example_claim_b64, ''AQIDBA=='']"
  by (simp add: example_assertion_def example_header_b64_def example_claim_b64_def)

text \<open>
  C7, as stated, fails: the parts keep the padding of the standard encoder. The header
  of the example provider is 40 bytes long, and its encoding ends in \<open>==\<close>.
\<close>

theorem assertion_parts_are_padded_counterexample:
  "fst (create_jwt example_provider example_world) = Inr example_assertion
   \<and> split_on CHR ''.'' example_assertion
       = [''eyJhbGciOiJSUzI1NiIsInR5cCI6IkpXVCIsImtpZCI6IjRmMWMifQ=='', example_claim_b64,
          ''AQIDBA=='']
   \<and> CHR ''='' \<in> set ''eyJhbGciOiJSUzI1NiIsInR5cCI6IkpXVCIsImtpZCI6IjRmMWMifQ==''"
  by (simp add: create_jwt_example split_example_assertion example_header_b64_def)

text \<open>
  C7, amended. Every assertion that \<^verbatim>\<open>_create_jwt\<close> returns has exactly three
  dot-separated parts: the url-safe base64 texts of the compact JSON of the header, of
  the compact JSON of the claims, and of the output of the signing command. Each is the
  standard encoding, padded with \<open>=\<close> to four characters for every three bytes begun.
  The signing command has run on exactly the first part, a dot, and the second part.
\<close>

theorem assertion_parts:
  assumes "create_jwt self w = (Inr tok, w')"
  shows "\<exists>p. openssl w (key self)
               (urlsafe_b64encode (json_dumps '','' '':'' (jwt_header self)) @ ''.'' @
                urlsafe_b64encode (json_dumps '','' '':''
                   (jwt_claim self (py_int (clock w (ticks w)))))) = Inr p
           \<and> split_on CHR ''.'' tok =
               [urlsafe_b64encode (json_dumps '','' '':'' (jwt_header self)),
                urlsafe_b64encode (json_dumps '','' '':''
                   (jwt_claim self (py_int (clock w (ticks w))))),
                urlsafe_b64encode (stdout p)]
           \<and> length (urlsafe_b64encode (stdout p)) = 4 * ((length (stdout p) + 2) div 3)"
proof -
  from create_jwt_Inr [OF assms] obtain p where
    p: "openssl w (key self) (jwt_payload self (py_int (clock w (ticks w)))) = Inr p"
    and tok: "tok = jwt_payload self (py_int (clock w (ticks w))) @ ''.''
                @ urlsafe_b64encode (stdout p)"
    by blast
  show ?thesis
    using p split_on_jwt [of self _ "stdout p"] unfolding tok
    by (auto simp: jwt_payload_def json_to_b64_def length_urlsafe_b64encode)
qed

theorem assertion_parts_witness:
  "create_jwt example_provider example_world
     = (Inr example_assertion, example_world\<lparr>ticks := 1\<rparr>)
   \<and> (\<exists>p :: completed_process. split_on CHR ''.'' example_assertion
        = [urlsafe_b64encode (json_dumps '','' '':'' (jwt_header example_provider)),
           urlsafe_b64encode (json_dumps '','' '':'' (jwt_claim example_provider 1000)),
           urlsafe_b64encode (stdout p)])"
proof -
  from assertion_parts [OF create_jwt_example] obtain p :: completed_process where
    "split_on CHR ''.'' example_assertion
        = [urlsafe_b64encode (json_dumps '','' '':'' (jwt_header example_provider)),
           urlsafe_b64encode (json_dumps '','' '':'' (jwt_claim example_provider 1000)),
           urlsafe_b64encode (stdout p)]"
    unfolding example_time by blast
  then show ?thesis
    using create_jwt_example by blast
qed

subsection \<open>The credential loader and the constructor\<close>

lemma and_then_Inr_iff: "and_then m f = Inr y \<longleftrightarrow> (\<exists>x. m = Inr x \<and> f x = Inr y)"
  by (cases m) (simp_all add: and_then_def)

lemma as_str_Inr_iff: "as_str v = Inr s \<longleftrightarrow> v = JStr s"
  by (cases v) simp_all

lemma init_fields:
  "AccessTokenProvider_init acc k kd ex turl w = Inr self \<Longrightarrow>
     account self = acc \<and> key self = k \<and> kid self = kd \<and> expire self = ex
     \<and> token_url self = turl"
  by (auto simp: AccessTokenProvider_init_def Let_def split: if_splits option.splits)

text \<open>A provider built from a document has the document's four fields, and expires
  its assertions after 60 seconds.\<close>

lemma provider_of_document_fields:
  assumes "provider_of_document j w = Inr self"
  shows "getitem j ''client_email'' = Inr (JStr (account self))
       \<and> getitem j ''private_key'' = Inr (JStr (key self))
       \<and> getitem j ''private_key_id'' = Inr (kid self)
       \<and> getitem j ''token_uri'' = Inr (JStr (token_url self))
       \<and> expire self = 60"
proof -
  from assms obtain pkid acc k turl where
    g: "getitem j ''client_email'' = Inr (JStr acc)" "getitem j ''private_key'' = Inr (JStr k)"
       "getitem j ''private_key_id'' = Inr pkid" "getitem j ''token_uri'' = Inr (JStr turl)"
    and i: "AccessTokenProvider_init acc k pkid 60 turl w = Inr self"
    unfolding provider_of_document_def and_then_Inr_iff as_str_Inr_iff by blast
  with init_fields [OF i] show ?thesis by simp
qed

lemma provider_of_module: "provider_of_document PyModule w = Inl TypeError"
  by (simp add: provider_of_document_def and_then_def)

text \<open>The loader returns a provider only on the path through a file.\<close>

lemma from_service_account_json_Inr:
  assumes "from_service_account_json obj w = Inr self"
  shows "\<exists>f text j. (obj = Path f \<or> obj = Str f \<and> json_loads w f = None)
           \<and> files w f = Some text \<and> json_loads w text = Some j
           \<and> provider_of_document (PyJson j) w = Inr self"
proof (cases obj)
  case (Str s)
  with assms show ?thesis
    by (cases "json_loads w s")
       (auto simp: from_service_account_json_def provider_of_module split: option.splits)
next
  case (Path f)
  with assms show ?thesis
    by (auto simp: from_service_account_json_def split: option.splits)
next
  case (Parsed j)
  with assms show ?thesis
    by (simp add: from_service_account_json_def provider_of_module)
qed

lemma from_service_account_json_expire:
  "from_service_account_json obj w = Inr self \<Longrightarrow> expire self = 60"
  using from_service_account_json_Inr provider_of_document_fields by blast

lemma example_loads_document:
  "example_loads (json_dumps '', '' '': '' example_document) = Some example_document"
  by (simp add: example_loads_def example_document_def example_response_def
        example_token_def eval_text)

lemma example_loads_path: "example_loads ''/etc/sa.json'' = None"
  by (simp add: example_loads_def example_document_def example_response_def
        example_token_def eval_text)

lemma provider_of_example_document:
  "provider_of_document (PyJson example_document) example_world_sa = Inr example_provider"
  by (simp add: provider_of_document_def and_then_def example_document_def
        AccessTokenProvider_init_def xdg_cache_home_def path_join_def example_world_sa_def
        example_world_def example_provider_def TOKEN_URL_def)

lemma from_service_account_json_example:
  "from_service_account_json (Path ''/etc/sa.json'') example_world_sa = Inr example_provider"
proof -
  have "files example_world_sa ''/etc/sa.json'' = Some (json_dumps '', '' '': '' example_document)"
    "json_loads example_world_sa = example_loads"
    by (simp_all add: example_world_sa_def example_world_def)
  then show ?thesis
    by (simp add: from_service_account_json_def example_loads_document
          provider_of_example_document)
qed

subsection \<open>The claims of the assertion\<close>

text \<open>
  C6, as stated, fails on the audience: it is a literal of \<^verbatim>\<open>_create_jwt\<close>, not the
  provider's \<open>token_url\<close>. For a provider configured with another token endpoint the
  two differ.
\<close>

theorem claims_set_audience_counterexample:
  "token_url (example_provider\<lparr>token_url := ''https://sts.example/token''\<rparr>)
     = ''https://sts.example/token''
   \<and> fst (create_jwt (example_provider\<lparr>token_url := ''https://sts.example/token''\<rparr>)
            example_world)
     = Inr example_assertion
   \<and> split_on CHR ''.'' example_assertion ! 1
     = json_to_b64 (jwt_claim (example_provider\<lparr>token_url := ''https://sts.example/token''\<rparr>)
                     1000)
   \<and> getitem (PyJson (jwt_claim (example_provider\<lparr>token_url := ''https://sts.example/token''\<rparr>)
                        1000)) ''aud''
     = Inr (JStr ''https://oauth2.googleapis.com/token'')"
proof -
  let ?p = "example_provider\<lparr>token_url := ''https://sts.example/token''\<rparr>"
  have same: "jwt_header ?p = jwt_header example_provider"
    "jwt_claim ?p t = jwt_claim example_provider t" "key ?p = key example_provider" for t
    by (simp_all add: jwt_header_def jwt_claim_def)
  have "create_jwt ?p example_world = create_jwt example_provider example_world"
    by (simp only: create_jwt_eq jwt_payload_def same)
  moreover have "getitem (PyJson (jwt_claim example_provider 1000)) ''aud''
      = Inr (JStr ''https://oauth2.googleapis.com/token'')"
    by (simp add: jwt_claim_def)
  ultimately show ?thesis
    by (simp add: create_jwt_example split_example_assertion same json_to_b64_def
          example_claim_b64)
qed

text \<open>
  C6, amended. The second part of every assertion is the encoding of a claims set whose
  issuer is the provider's account, whose scope is the read/write object-storage scope,
  whose audience is the fixed text \<open>https://oauth2.googleapis.com/token\<close> (the default
  token endpoint, whatever endpoint the provider is configured with), whose issued-at
  is the clock reading in whole seconds, and whose expiry is issued-at plus the
  provider's lifetime. A provider built by the credential loader has the default
  lifetime, 60 seconds.
\<close>

theorem claims_set:
  "(create_jwt self w = (Inr tok, w') \<longrightarrow>
      split_on CHR ''.'' tok ! 1 = json_to_b64 (jwt_claim self (py_int (clock w (ticks w)))))
   \<and> getitem (PyJson (jwt_claim self t)) ''iss'' = Inr (JStr (account self))
   \<and> getitem (PyJson (jwt_claim self t)) ''scope''
       = Inr (JStr ''https://www.googleapis.com/auth/devstorage.read_write'')
   \<and> getitem (PyJson (jwt_claim self t)) ''aud''
       = Inr (JStr ''https://oauth2.googleapis.com/token'')
   \<and> getitem (PyJson (jwt_claim self t)) ''iat'' = Inr (JInt t)
   \<and> getitem (PyJson (jwt_claim self t)) ''exp'' = Inr (JInt (t + expire self))
   \<and> (from_service_account_json obj w2 = Inr self \<longrightarrow> expire self = 60)"
proof -
  have "split_on CHR ''.'' tok ! 1 = json_to_b64 (jwt_claim self (py_int (clock w (ticks w))))"
    if "create_jwt self w = (Inr tok, w')"
    using create_jwt_Inr [OF that] split_on_jwt by auto
  then show ?thesis
    by (simp add: jwt_claim_def from_service_account_json_expire)
qed

theorem claims_set_witness:
  "create_jwt example_provider example_world
     = (Inr example_assertion, example_world\<lparr>ticks := 1\<rparr>)
   \<and> split_on CHR ''.'' example_assertion ! 1 = json_to_b64 (jwt_claim example_provider 1000)
   \<and> getitem (PyJson (jwt_claim example_provider 1000)) ''exp'' = Inr (JInt 1060)
   \<and> from_service_account_json (Path ''/etc/sa.json'') example_world_sa = Inr example_provider
   \<and> expire example_provider = 60"
  using claims_set [of example_provider example_world example_assertion
      "example_world\<lparr>ticks := 1\<rparr>" 1000 "Path ''/etc/sa.json''" example_world_sa]
    create_jwt_example from_service_account_json_example
  by (simp add: example_time)

subsection \<open>The token provider\<close>


lemma drop_expired_fresh:
  assumes "fresh self w"
  shows "drop_expired self w = (Inr (), self, w\<lparr>ticks := ticks w + 1\<rparr>)"
    and "cached_token self \<noteq> JNull"
proof -
  show ne: "cached_token self \<noteq> JNull"
    using assms by (auto simp: fresh_def)
  show "drop_expired self w = (Inr (), self, w\<lparr>ticks := ticks w + 1\<rparr>)"
    using assms ne
    by (auto simp: fresh_def drop_expired_def time_time_def py_ge_def
        split: sum.splits option.splits)
qed

lemma drop_expired_stale:
  assumes "stale self w"
  shows "drop_expired self w
       = (Inr (), self\<lparr>cached_token := JNull\<rparr>, w\<lparr>ticks := ticks_at_exchange self w\<rparr>)"
proof (cases "cached_token self = JNull")
  case True
  then have "self\<lparr>cached_token := JNull\<rparr> = self" by (cases self) simp
  with True show ?thesis by (simp add: drop_expired_def ticks_at_exchange_def)
next
  case False
  with assms show ?thesis
    by (auto simp: stale_def drop_expired_def time_time_def py_ge_def ticks_at_exchange_def
        split: sum.splits option.splits)
qed

lemma urlopen_snd:
  "snd (urlopen_with_decoded_response r w) = w\<lparr>requests := requests w @ [r]\<rparr>"
  by (simp add: urlopen_with_decoded_response_def Let_def split: sum.splits option.splits)

lemma urlopen_fst_ticks:
  "fst (urlopen_with_decoded_response r (w\<lparr>ticks := k\<rparr>))
     = fst (urlopen_with_decoded_response r w)"
  by (simp add: urlopen_with_decoded_response_def Let_def split: sum.splits option.splits)

lemma urlopen_eq:
  "urlopen_with_decoded_response r w
     = (fst (urlopen_with_decoded_response r w), w\<lparr>requests := requests w @ [r]\<rparr>)"
  using urlopen_snd [of r w] by (metis prod.collapse)

text \<open>The exchange is one request, whatever the server answers, once the assertion is
  signed.\<close>

lemma request_new_token_signed:
  assumes "openssl w (key self) (jwt_payload self (py_int (clock w (ticks w)))) = Inr p"
  shows "request_new_token self w =
     (case fst (urlopen_with_decoded_response
                  (token_request self (jwt_payload self (py_int (clock w (ticks w))) @ ''.''
                      @ urlsafe_b64encode (stdout p))) w) of
        Inl e \<Rightarrow> Inl e
      | Inr d \<Rightarrow> (case json_loads w d of None \<Rightarrow> Inl JSONDecodeError | Some j \<Rightarrow> Inr j),
      w\<lparr>ticks := ticks w + 1,
        requests := requests w @ [token_request self
           (jwt_payload self (py_int (clock w (ticks w))) @ ''.''
              @ urlsafe_b64encode (stdout p))]\<rparr>)"
  unfolding request_new_token_def create_jwt_eq assms
  apply (simp only: sum.case prod.case)
  apply (subst urlopen_eq)
  apply (simp add: urlopen_fst_ticks split: sum.splits option.splits)
  done



lemma can_store_frame [simp]:
  "can_store (self\<lparr>cached_token := t\<rparr>) w = can_store self w"
  "can_store self (w\<lparr>ticks := k\<rparr>) = can_store self w"
  "can_store self (w\<lparr>requests := rs\<rparr>) = can_store self w"
  by (simp_all add: can_store_def)

lemma cached_token_frame [simp]:
  "jwt_payload (self\<lparr>cached_token := t\<rparr>) = jwt_payload self"
  "token_request (self\<lparr>cached_token := t\<rparr>) = token_request self"
  by (simp_all add: jwt_payload_def jwt_header_def jwt_claim_def token_request_def fun_eq_iff)

text \<open>\<^verbatim>\<open>request_token\<close> on a stale state is the refresh of the state without a token.\<close>

lemma request_token_stale:
  assumes "stale self w"
  shows "request_token self w =
     (case refresh (self\<lparr>cached_token := JNull\<rparr>) (w\<lparr>ticks := ticks_at_exchange self w\<rparr>) of
        (Inl e, self2, w2) \<Rightarrow> (Inl e, self2, w2)
      | (Inr u, self2, w2) \<Rightarrow> (Inr (cached_token self2), self2, w2))"
  by (simp add: request_token_def drop_expired_stale [OF assms])






lemma example_loads_response:
  "example_loads (json_dumps '', '' '': '' example_response) = Some example_response"
  by (simp add: example_loads_def)


subsection \<open>Writing the cache file\<close>

text \<open>A failed write leaves the files as they were: the temporary file is gone, and the
  cache file has the content it had.\<close>

lemma store_cached_token_failure:
  assumes "store_cached_token self w = (Inl e, w')"
  shows "files w' = files w \<and> e = OSError"
proof -
  let ?n = "path_join (gettempdir w) (tempname w)"
  show ?thesis
  proof (cases "io_fails w MkTemp \<or> files w ?n \<noteq> None")
    case True
    with assms show ?thesis
      by (auto simp: store_cached_token_def Let_def)
  next
    case False
    then have "(files w)(?n := None) = files w"
      by (simp add: fun_upd_idem)
    with assms False show ?thesis
      by (auto simp: store_cached_token_def Let_def fs_do_def split: if_splits)
  qed
qed

lemma request_new_token_files: "files (snd (request_new_token self w)) = files w"
  by (auto simp: request_new_token_def create_jwt_eq urlopen_with_decoded_response_def Let_def
      split: sum.splits option.splits prod.splits)

lemma drop_expired_files: "files (snd (snd (drop_expired self w))) = files w"
  by (auto simp: drop_expired_def time_time_def split: sum.splits prod.splits)

lemma refresh_failure_files:
  assumes "refresh self w = (Inl e, self', w')"
  shows "files w' = files w"
proof -
  obtain r w1 where new: "request_new_token self w = (r, w1)"
    by (cases "request_new_token self w")
  then have f1: "files w1 = files w"
    using request_new_token_files [of self w] by simp
  show ?thesis
    using assms new f1
    by (auto simp: refresh_def time_time_def Let_def split: sum.splits prod.splits
        dest!: store_cached_token_failure)
qed

text \<open>Whenever \<^verbatim>\<open>request_token\<close> raises, the files are as they were before the call.\<close>

lemma request_token_failure_files:
  assumes "request_token self w = (Inl e, self', w')"
  shows "files w' = files w"
proof -
  obtain r self1 w1 where d: "drop_expired self w = (r, self1, w1)"
    by (cases "drop_expired self w")
  then have f1: "files w1 = files w"
    using drop_expired_files [of self w] by simp
  show ?thesis
    using assms d f1
    by (auto simp: request_token_def split: sum.splits prod.splits if_splits
        dest!: refresh_failure_files)
qed

text \<open>The refresh of the example provider with \<open>/tmp\<close> on a file system of its own.\<close>

lemma request_token_crossdev:
  "fst (request_token example_provider crossdev_world) = Inl OSError
   \<and> fs_trace (snd (snd (request_token example_provider crossdev_world)))
       = [Created ''/tmp/tmpk2j9x1ab'',
          Written ''/tmp/tmpk2j9x1ab'' (json_dumps '', '' '': '' example_token),
          Flushed ''/tmp/tmpk2j9x1ab'', Synced ''/tmp/tmpk2j9x1ab'',
          Unlinked ''/tmp/tmpk2j9x1ab'']
   \<and> files (snd (snd (request_token example_provider crossdev_world))) = Map.empty"
proof -
  let ?w0 = "crossdev_world\<lparr>ticks := ticks_at_exchange example_provider crossdev_world\<rparr>"
  let ?p = "\<lparr>returncode = 0, stdout = [CHR 0x01, CHR 0x02, CHR 0x03, CHR 0x04], stderr = []\<rparr>"
  have s: "stale example_provider crossdev_world"
    by (simp add: stale_def example_provider_def)
  have k: "ticks_at_exchange example_provider crossdev_world = 0"
    by (simp add: ticks_at_exchange_def example_provider_def crossdev_world_def
          example_world_def)
  have self0: "example_provider\<lparr>cached_token := JNull\<rparr> = example_provider"
    by (simp add: example_provider_def)
  have run: "openssl ?w0 (key example_provider)
      (jwt_payload example_provider (py_int (clock ?w0 (ticks ?w0)))) = Inr ?p"
    by (simp add: crossdev_world_def example_world_def)
  have new: "request_new_token example_provider ?w0
      = (Inr example_response,
         ?w0\<lparr>ticks := ticks ?w0 + 1,
             requests := requests ?w0 @ [token_request example_provider
               (jwt_payload example_provider (py_int (clock ?w0 (ticks ?w0))) @ ''.''
                  @ urlsafe_b64encode (stdout ?p))]\<rparr>)"
    unfolding request_new_token_signed [OF run]
    by (simp add: urlopen_with_decoded_response_def crossdev_world_def example_world_def
          example_loads_response)
  have t: "py_int (2001 / 2) = 1000"
    by (simp add: py_int_def floor_eq_iff)
  have tok: "JDict (AList.update ''expires_at'' (JInt 4600)
      [(''access_token'', JStr ''ya29.c''), (''token_type'', JStr ''Bearer''),
       (''expires_in'', JInt 3600)]) = example_token"
    by (simp add: example_token_def)
  have r: "refresh example_provider ?w0
      = (Inl OSError, example_provider\<lparr>cached_token := example_token\<rparr>,
         snd (store_cached_token (example_provider\<lparr>cached_token := example_token\<rparr>)
            (crossdev_world\<lparr>ticks := 2,
               requests := [token_request example_provider
                 (jwt_payload example_provider (py_int (clock ?w0 (ticks ?w0))) @ ''.''
                    @ urlsafe_b64encode (stdout ?p))]\<rparr>)))"
    unfolding refresh_def new
    apply (simp add: k example_response_def time_time_def py_add_int_def t tok Let_def
             del: urlsafe_b64encode.simps)
    apply (simp add: store_cached_token_def Let_def fs_do_def crossdev_world_def
             example_world_def example_provider_def path_join_def t example_token_def
             del: urlsafe_b64encode.simps json_dumps.simps)
    done
  show ?thesis
    unfolding request_token_stale [OF s] self0 r
    by (simp add: store_cached_token_def Let_def fs_do_def crossdev_world_def
          example_world_def example_provider_def path_join_def
          del: urlsafe_b64encode.simps json_dumps.simps)
qed

text \<open>
  C3 at a failing input. The new token goes to \<open>/tmp/tmpk2j9x1ab\<close>, a file in the
  system's temporary directory and not in the cache directory \<open>/home/u/.cache/ugcs\<close>.
  With \<open>/tmp\<close> on another file system the replacement is refused, the temporary file
  is unlinked, and the refresh raises.
\<close>

theorem temp_file_outside_cache_directory:
  "cached_token_path example_provider = ''/home/u/.cache/ugcs/sa@x.token''
   \<and> fst (request_token example_provider crossdev_world) = Inl OSError
   \<and> fs_trace (snd (snd (request_token example_provider crossdev_world)))
       = [Created ''/tmp/tmpk2j9x1ab'',
          Written ''/tmp/tmpk2j9x1ab'' (json_dumps '', '' '': '' example_token),
          Flushed ''/tmp/tmpk2j9x1ab'', Synced ''/tmp/tmpk2j9x1ab'',
          Unlinked ''/tmp/tmpk2j9x1ab'']
   \<and> files (snd (snd (request_token example_provider crossdev_world))) = Map.empty"
  using request_token_crossdev by (simp add: example_provider_def)

subsection \<open>Loading the cache file\<close>





subsection \<open>The credential loader on inline credentials\<close>

text \<open>A string that parses, and an already parsed structure, both reach \<^verbatim>\<open>j = json\<close>.\<close>

lemma from_service_account_json_inline:
  "from_service_account_json (Parsed j) w = Inl TypeError"
  "json_loads w s = Some j \<Longrightarrow> from_service_account_json (Str s) w = Inl TypeError"
  by (simp_all add: from_service_account_json_def provider_of_module)

text \<open>A string that does not parse is read as the path of a file.\<close>

lemma from_service_account_json_path_string:
  "from_service_account_json (Str ''/etc/sa.json'') example_world_sa = Inr example_provider"
proof -
  have "json_loads example_world_sa ''/etc/sa.json'' = None"
    by (simp add: example_world_sa_def example_world_def example_loads_path)
  moreover have "from_service_account_json (Path ''/etc/sa.json'') example_world_sa
      = Inr example_provider"
    by (rule from_service_account_json_example)
  ultimately show ?thesis
    by (simp add: from_service_account_json_def)
qed

text \<open>
  C5 at a failing input. The text of the example document parses as JSON, and the
  document itself is an already parsed structure; for both the loader raises
  \<^verbatim>\<open>TypeError\<close>, where C5 says that a provider is built from the document's fields.
\<close>

theorem inline_credentials_raise:
  "json_loads example_world (json_dumps '', '' '': '' example_document) = Some example_document
   \<and> from_service_account_json (Str (json_dumps '', '' '': '' example_document)) example_world
       = Inl TypeError
   \<and> from_service_account_json (Parsed example_document) example_world = Inl TypeError"
proof -
  have "json_loads example_world (json_dumps '', '' '': '' example_document)
      = Some example_document"
    by (simp add: example_world_def example_loads_document)
  then show ?thesis
    by (simp add: from_service_account_json_def provider_of_module)
qed

subsection \<open>The storage client\<close>

lemma hex_digit_safe: "hex_digit True d \<in> set always_safe"
proof -
  have "''0123456789ABCDEF'' ! (d mod 16) \<in> set ''0123456789ABCDEF''"
    by (rule nth_mem) simp
  moreover have "set ''0123456789ABCDEF'' \<subseteq> set always_safe"
    by (simp add: always_safe_def)
  ultimately show ?thesis
    by (auto simp: hex_digit_def)
qed

text \<open>With no safe characters, the quoted text has only unreserved characters and the
  percent sign.\<close>

lemma quote_chars: "set (quote s []) \<subseteq> insert CHR ''%'' (set always_safe)"
  by (auto simp: quote_def hex2_upper_def hex_digit_safe)

lemma quote_no_slash: "CHR ''/'' \<notin> set (quote s [])"
proof -
  have "CHR ''/'' \<notin> insert CHR ''%'' (set always_safe)"
    by (simp add: always_safe_def)
  then show ?thesis using quote_chars by blast
qed

lemma authorized_request_ok:
  assumes "request_token self w = (Inr token, self1, w1)"
    and "getitem (PyJson token) ''token_type'' = Inr (JStr token_type)"
    and "getitem (PyJson token) ''access_token'' = Inr (JStr access_token)"
  shows "authorized_request u self w =
     (Inr \<lparr>req_url = u,
           req_headers = [(''Authorization'', token_type @ '' '' @ access_token),
                          (''Accept-Encoding'', ''gzip, identity'')],
           req_data = None, req_method = None\<rparr>, self1, w1)"
  using assms by (simp add: authorized_request_def)

lemma authorized_request_raises:
  assumes "request_token self w = (Inl e, self1, w1)"
  shows "authorized_request u self w = (Inl e, self1, w1)"
  using assms by (simp add: authorized_request_def)

lemma send_state: "snd (send rq self w) = (self, w\<lparr>requests := requests w @ [rq]\<rparr>)"
  by (simp add: send_def urlopen_snd split: prod.splits)
     (metis snd_conv urlopen_snd)

lemma send_json_state: "snd (send_json rq self w) = (self, w\<lparr>requests := requests w @ [rq]\<rparr>)"
proof -
  obtain r w' where u: "urlopen_with_decoded_response rq w = (r, w')"
    by (cases "urlopen_with_decoded_response rq w")
  then have "w' = w\<lparr>requests := requests w @ [rq]\<rparr>"
    using urlopen_snd [of rq w] by simp
  with u show ?thesis
    by (simp add: send_json_def split: sum.splits option.splits)
qed

text \<open>The state after each operation, when the token has been obtained: the provider as
  \<^verbatim>\<open>request_token\<close> left it, and one more request.\<close>

lemma bucket_runs_ok:
  assumes "request_token self w = (Inr token, self1, w1)"
    and "getitem (PyJson token) ''token_type'' = Inr (JStr token_type)"
    and "getitem (PyJson token) ''access_token'' = Inr (JStr access_token)"
    and "hs = [(''Authorization'', token_type @ '' '' @ access_token),
               (''Accept-Encoding'', ''gzip, identity'')]"
  shows "bucket_runs name prefix path dat content_type self w =
     [(self1, w1\<lparr>requests := requests w1 @
         [\<lparr>req_url = (case prefix of
                          None \<Rightarrow> STORAGE_URL @ ''/b/'' @ name @ ''/o''
                        | Some pf \<Rightarrow>
                            if pf = [] then STORAGE_URL @ ''/b/'' @ name @ ''/o''
                            else STORAGE_URL @ ''/b/'' @ name @ ''/o'' @ ''?''
                                   @ urlencode [(''prefix'', pf)]),
            req_headers = hs, req_data = None, req_method = None\<rparr>]\<rparr>),
      (self1, w1\<lparr>requests := requests w1 @
         [\<lparr>req_url = UPLOAD_URL @ ''/b/'' @ name @ ''/o?''
                        @ urlencode [(''uploadType'', ''media''), (''name'', path)],
            req_headers = hs @ [(''Content-Type'', content_type),
                                (''Content-Transfer-Encoding'', ''binary'')],
            req_data = Some dat, req_method = None\<rparr>]\<rparr>),
      (self1, w1\<lparr>requests := requests w1 @
         [\<lparr>req_url = STORAGE_URL @ ''/b/'' @ name @ ''/o/'' @ quote path [] @ ''?alt=media'',
            req_headers = hs, req_data = None, req_method = None\<rparr>]\<rparr>),
      (self1, w1\<lparr>requests := requests w1 @
         [\<lparr>req_url = STORAGE_URL @ ''/b/'' @ name @ ''/o/'' @ quote path [],
            req_headers = hs, req_data = None, req_method = None\<rparr>]\<rparr>),
      (self1, w1\<lparr>requests := requests w1 @
         [\<lparr>req_url = STORAGE_URL @ ''/b/'' @ name @ ''/o/'' @ quote path [],
            req_headers = hs, req_data = None, req_method = Some ''DELETE''\<rparr>]\<rparr>)]"
proof -
  note ar = authorized_request_ok [OF assms(1-3), folded assms(4)]
  have l: "snd (Bucket_list name prefix self w) = (self1, w1\<lparr>requests := requests w1 @
         [\<lparr>req_url = (case prefix of
                          None \<Rightarrow> STORAGE_URL @ ''/b/'' @ name @ ''/o''
                        | Some pf \<Rightarrow>
                            if pf = [] then STORAGE_URL @ ''/b/'' @ name @ ''/o''
                            else STORAGE_URL @ ''/b/'' @ name @ ''/o'' @ ''?''
                                   @ urlencode [(''prefix'', pf)]),
            req_headers = hs, req_data = None, req_method = None\<rparr>]\<rparr>)"
    by (cases prefix) (simp_all add: Bucket_list_def Let_def ar send_json_state)
  have p: "snd (Bucket_put name path dat content_type self w) = (self1, w1\<lparr>requests := requests w1 @
         [\<lparr>req_url = UPLOAD_URL @ ''/b/'' @ name @ ''/o?''
                        @ urlencode [(''uploadType'', ''media''), (''name'', path)],
            req_headers = hs @ [(''Content-Type'', content_type),
                                (''Content-Transfer-Encoding'', ''binary'')],
            req_data = Some dat, req_method = None\<rparr>]\<rparr>)"
    by (simp add: Bucket_put_def ar send_json_state add_header_def assms(4))
  have g: "snd (Bucket_get name path self w) = (self1, w1\<lparr>requests := requests w1 @
         [\<lparr>req_url = STORAGE_URL @ ''/b/'' @ name @ ''/o/'' @ quote path [] @ ''?alt=media'',
            req_headers = hs, req_data = None, req_method = None\<rparr>]\<rparr>)"
    by (simp add: Bucket_get_def ar send_state)
  have m: "snd (Bucket_get_metadata name path self w) = (self1, w1\<lparr>requests := requests w1 @
         [\<lparr>req_url = STORAGE_URL @ ''/b/'' @ name @ ''/o/'' @ quote path [],
            req_headers = hs, req_data = None, req_method = None\<rparr>]\<rparr>)"
    by (simp add: Bucket_get_metadata_def ar send_json_state)
  have "snd (send (\<lparr>req_url = STORAGE_URL @ ''/b/'' @ name @ ''/o/'' @ quote path [],
            req_headers = hs, req_data = None, req_method = Some ''DELETE''\<rparr>) self1 w1)
      = (self1, w1\<lparr>requests := requests w1 @
         [\<lparr>req_url = STORAGE_URL @ ''/b/'' @ name @ ''/o/'' @ quote path [],
            req_headers = hs, req_data = None, req_method = Some ''DELETE''\<rparr>]\<rparr>)"
    by (rule send_state)
  then have d: "snd (Bucket_delete name path self w) = (self1, w1\<lparr>requests := requests w1 @
         [\<lparr>req_url = STORAGE_URL @ ''/b/'' @ name @ ''/o/'' @ quote path [],
            req_headers = hs, req_data = None, req_method = Some ''DELETE''\<rparr>]\<rparr>)"
    by (auto simp: Bucket_delete_def ar split: prod.splits sum.splits)
  show ?thesis
    unfolding bucket_runs_def l p g m d ..
qed

text \<open>When the token cannot be obtained, no operation sends a request of its own.\<close>

lemma bucket_runs_raise:
  assumes "request_token self w = (Inl e, self1, w1)"
  shows "bucket_runs name prefix path dat content_type self w = replicate 5 (self1, w1)"
  by (simp add: bucket_runs_def Bucket_list_def Bucket_put_def Bucket_get_def
        Bucket_get_metadata_def Bucket_delete_def Let_def authorized_request_raises [OF assms]
        numeral_eq_Suc)

lemma request_token_cached_example:
  "request_token caching_provider example_world
     = (Inr example_token, caching_provider, example_world\<lparr>ticks := 1\<rparr>)"
proof -
  have "fresh caching_provider example_world"
    by (simp add: fresh_def caching_provider_def example_token_def example_world_def)
  from drop_expired_fresh [OF this] show ?thesis
    by (simp add: request_token_def caching_provider_def example_world_def)
qed

lemma example_token_fields:
  "getitem (PyJson example_token) ''token_type'' = Inr (JStr ''Bearer'')"
  "getitem (PyJson example_token) ''access_token'' = Inr (JStr ''ya29.c'')"
  by (simp_all add: example_token_def)

text \<open>
  C9. Each of the five bucket operations first calls \<^verbatim>\<open>request_token\<close>. When that
  returns a token whose \<open>token_type\<close> and \<open>access_token\<close> are strings, the operation
  sends exactly one further request, whose \<open>Authorization\<close> header is the token type, a
  space and the access token, and whose \<open>Accept-Encoding\<close> header is \<open>gzip, identity\<close>;
  the provider is left as \<^verbatim>\<open>request_token\<close> left it. When \<^verbatim>\<open>request_token\<close> raises,
  the operation sends no request of its own.
\<close>

theorem bucket_requests_are_authorized:
  "(request_token self w = (Inr token, self1, w1) \<longrightarrow>
    getitem (PyJson token) ''token_type'' = Inr (JStr token_type) \<longrightarrow>
    getitem (PyJson token) ''access_token'' = Inr (JStr access_token) \<longrightarrow>
      (\<forall>(self', w') \<in> set (bucket_runs name prefix path dat content_type self w).
         self' = self1
         \<and> (\<exists>rq. requests w' = requests w1 @ [rq]
               \<and> map_of (req_headers rq) ''Authorization''
                   = Some (token_type @ '' '' @ access_token)
               \<and> map_of (req_headers rq) ''Accept-Encoding'' = Some ''gzip, identity'')))
   \<and> (request_token self w = (Inl e, self1, w1) \<longrightarrow>
      (\<forall>(self', w') \<in> set (bucket_runs name prefix path dat content_type self w).
         self' = self1 \<and> w' = w1))"
proof (intro conjI impI)
  assume "request_token self w = (Inr token, self1, w1)"
    and "getitem (PyJson token) ''token_type'' = Inr (JStr token_type)"
    and "getitem (PyJson token) ''access_token'' = Inr (JStr access_token)"
  from bucket_runs_ok [OF this refl, of name prefix path dat content_type]
  show "\<forall>(self', w') \<in> set (bucket_runs name prefix path dat content_type self w).
         self' = self1
         \<and> (\<exists>rq. requests w' = requests w1 @ [rq]
               \<and> map_of (req_headers rq) ''Authorization''
                   = Some (token_type @ '' '' @ access_token)
               \<and> map_of (req_headers rq) ''Accept-Encoding'' = Some ''gzip, identity'')"
    by simp
next
  assume "request_token self w = (Inl e, self1, w1)"
  from bucket_runs_raise [OF this, of name prefix path dat content_type]
  show "\<forall>(self', w') \<in> set (bucket_runs name prefix path dat content_type self w).
         self' = self1 \<and> w' = w1"
    by simp
qed

theorem bucket_requests_are_authorized_witness:
  "request_token caching_provider example_world
     = (Inr example_token, caching_provider, example_world\<lparr>ticks := 1\<rparr>)
   \<and> map (\<lambda>r. map (\<lambda>rq. (map_of (req_headers rq) ''Authorization'',
                          map_of (req_headers rq) ''Accept-Encoding'')) (requests (snd r)))
       (bucket_runs ''b'' (Some ''logs/'') ''a/b c'' ''data'' ''text/plain''
          caching_provider example_world)
     = [ [(Some ''Bearer ya29.c'', Some ''gzip, identity'')],
        [(Some ''Bearer ya29.c'', Some ''gzip, identity'')],
        [(Some ''Bearer ya29.c'', Some ''gzip, identity'')],
        [(Some ''Bearer ya29.c'', Some ''gzip, identity'')],
        [(Some ''Bearer ya29.c'', Some ''gzip, identity'')]]
   \<and> fst (request_token example_provider crossdev_world) = Inl OSError
   \<and> map snd (bucket_runs ''b'' (Some ''logs/'') ''a/b c'' ''data'' ''text/plain''
          example_provider crossdev_world)
     = [snd (snd (request_token example_provider crossdev_world)),
        snd (snd (request_token example_provider crossdev_world)),
        snd (snd (request_token example_provider crossdev_world)),
        snd (snd (request_token example_provider crossdev_world)),
        snd (snd (request_token example_provider crossdev_world))]"
proof -
  let ?R = "request_token example_provider crossdev_world"
  have rq: "requests (example_world\<lparr>ticks := 1\<rparr>) = []"
    by (simp add: example_world_def)
  have f: "fst ?R = Inl OSError"
    using request_token_crossdev by simp
  then have r: "?R = (Inl OSError, fst (snd ?R), snd (snd ?R))"
    by (metis prod.collapse)
  note A = bucket_requests_are_authorized
    [of caching_provider example_world example_token caching_provider
        "example_world\<lparr>ticks := 1\<rparr>" "''Bearer''" "''ya29.c''"
        "''b''" "Some ''logs/''" "''a/b c''" "''data''" "''text/plain''",
     THEN conjunct1, rule_format,
     OF request_token_cached_example example_token_fields, unfolded rq]
  note B = bucket_requests_are_authorized
    [of example_provider crossdev_world _ "fst (snd ?R)" "snd (snd ?R)" _ _
        "''b''" "Some ''logs/''" "''a/b c''" "''data''" "''text/plain''" OSError,
     THEN conjunct2, rule_format, OF r]
  have one: "map (\<lambda>rq. (map_of (req_headers rq) ''Authorization'',
                    map_of (req_headers rq) ''Accept-Encoding'')) (requests (snd x))
      = [(Some ''Bearer ya29.c'', Some ''gzip, identity'')]"
    if "x \<in> set (bucket_runs ''b'' (Some ''logs/'') ''a/b c'' ''data'' ''text/plain''
                    caching_provider example_world)" for x
    using A [OF that] by (cases x) auto
  have "map (\<lambda>r. map (\<lambda>rq. (map_of (req_headers rq) ''Authorization'',
                          map_of (req_headers rq) ''Accept-Encoding'')) (requests (snd r)))
       (bucket_runs ''b'' (Some ''logs/'') ''a/b c'' ''data'' ''text/plain''
          caching_provider example_world)
     = map (\<lambda>r. [(Some ''Bearer ya29.c'', Some ''gzip, identity'')])
       (bucket_runs ''b'' (Some ''logs/'') ''a/b c'' ''data'' ''text/plain''
          caching_provider example_world)"
    by (rule map_cong [OF refl]) (rule one)
  then have a: "map (\<lambda>r. map (\<lambda>rq. (map_of (req_headers rq) ''Authorization'',
                          map_of (req_headers rq) ''Accept-Encoding'')) (requests (snd r)))
       (bucket_runs ''b'' (Some ''logs/'') ''a/b c'' ''data'' ''text/plain''
          caching_provider example_world)
     = [ [(Some ''Bearer ya29.c'', Some ''gzip, identity'')],
        [(Some ''Bearer ya29.c'', Some ''gzip, identity'')],
        [(Some ''Bearer ya29.c'', Some ''gzip, identity'')],
        [(Some ''Bearer ya29.c'', Some ''gzip, identity'')],
        [(Some ''Bearer ya29.c'', Some ''gzip, identity'')]]"
    by (simp add: bucket_runs_def)
  have two: "snd x = snd (snd ?R)"
    if "x \<in> set (bucket_runs ''b'' (Some ''logs/'') ''a/b c'' ''data'' ''text/plain''
                    example_provider crossdev_world)" for x
    using B [OF that] by (cases x) simp
  have "map snd (bucket_runs ''b'' (Some ''logs/'') ''a/b c'' ''data'' ''text/plain''
          example_provider crossdev_world)
     = map (\<lambda>r. snd (snd ?R))
        (bucket_runs ''b'' (Some ''logs/'') ''a/b c'' ''data'' ''text/plain''
          example_provider crossdev_world)"
    by (rule map_cong [OF refl]) (rule two)
  then have b: "map snd (bucket_runs ''b'' (Some ''logs/'') ''a/b c'' ''data'' ''text/plain''
          example_provider crossdev_world)
     = [snd (snd ?R), snd (snd ?R), snd (snd ?R), snd (snd ?R), snd (snd ?R)]"
    by (simp add: bucket_runs_def)
  show ?thesis
    by (rule conjI [OF request_token_cached_example conjI [OF a conjI [OF f b]]])
qed

text \<open>
  C8. The requests of \<^verbatim>\<open>get\<close>, \<^verbatim>\<open>get_metadata\<close> and \<^verbatim>\<open>delete\<close> go to the object URL:
  the storage base, the bucket name, and the path quoted with no safe characters. Every
  byte of the path that is not a letter, a digit or one of \<open>_.-~\<close> is replaced by its
  \<open>%XX\<close> escape, so the quoted segment has no slash and no reserved character.
\<close>

theorem object_path_is_fully_quoted:
  "(request_token self w = (Inr token, self1, w1) \<longrightarrow>
    getitem (PyJson token) ''token_type'' = Inr (JStr token_type) \<longrightarrow>
    getitem (PyJson token) ''access_token'' = Inr (JStr access_token) \<longrightarrow>
       req_url (last (requests (snd (snd (Bucket_get name path self w)))))
         = STORAGE_URL @ ''/b/'' @ name @ ''/o/'' @ quote path [] @ ''?alt=media''
     \<and> req_url (last (requests (snd (snd (Bucket_get_metadata name path self w)))))
         = STORAGE_URL @ ''/b/'' @ name @ ''/o/'' @ quote path []
     \<and> req_url (last (requests (snd (snd (Bucket_delete name path self w)))))
         = STORAGE_URL @ ''/b/'' @ name @ ''/o/'' @ quote path [])
   \<and> quote path [] =
       concat (map (\<lambda>c. if c \<in> set always_safe then [c]
                        else CHR ''%'' # hex2_upper (of_char c)) path)
   \<and> set (quote path []) \<subseteq> insert CHR ''%'' (set always_safe)
   \<and> CHR ''/'' \<notin> set (quote path [])"
proof -
  have "req_url (last (requests (snd (snd (Bucket_get name path self w)))))
         = STORAGE_URL @ ''/b/'' @ name @ ''/o/'' @ quote path [] @ ''?alt=media''
     \<and> req_url (last (requests (snd (snd (Bucket_get_metadata name path self w)))))
         = STORAGE_URL @ ''/b/'' @ name @ ''/o/'' @ quote path []
     \<and> req_url (last (requests (snd (snd (Bucket_delete name path self w)))))
         = STORAGE_URL @ ''/b/'' @ name @ ''/o/'' @ quote path []"
    if "request_token self w = (Inr token, self1, w1)"
      and "getitem (PyJson token) ''token_type'' = Inr (JStr token_type)"
      and "getitem (PyJson token) ''access_token'' = Inr (JStr access_token)"
    using bucket_runs_ok [OF that refl, of name None path "[]" "[]"]
    by (simp add: bucket_runs_def)
  moreover have "quote path [] =
       concat (map (\<lambda>c. if c \<in> set always_safe then [c]
                        else CHR ''%'' # hex2_upper (of_char c)) path)"
    by (simp add: quote_def)
  ultimately show ?thesis
    using quote_chars quote_no_slash by blast
qed

theorem object_path_is_fully_quoted_witness:
  "request_token caching_provider example_world
     = (Inr example_token, caching_provider, example_world\<lparr>ticks := 1\<rparr>)
   \<and> req_url (last (requests (snd (snd (Bucket_get ''b'' ''a/b c'' caching_provider
                                             example_world)))))
       = ''https://storage.googleapis.com/storage/v1/b/b/o/a%2Fb%20c?alt=media''
   \<and> req_url (last (requests (snd (snd (Bucket_get_metadata ''b'' ''a/b c'' caching_provider
                                             example_world)))))
       = ''https://storage.googleapis.com/storage/v1/b/b/o/a%2Fb%20c''
   \<and> req_url (last (requests (snd (snd (Bucket_delete ''b'' ''a/b c'' caching_provider
                                             example_world)))))
       = ''https://storage.googleapis.com/storage/v1/b/b/o/a%2Fb%20c''"
proof -
  have q: "quote ''a/b c'' [] = ''a%2Fb%20c''"
    by (simp add: quote_def always_safe_def hex2_upper_def hex_digit_def)
  note T = object_path_is_fully_quoted
    [of caching_provider example_world example_token caching_provider
        "example_world\<lparr>ticks := 1\<rparr>" "''Bearer''" "''ya29.c''" "''b''" "''a/b c''",
     THEN conjunct1, rule_format,
     OF request_token_cached_example example_token_fields, unfolded q]
  show ?thesis
    using T request_token_cached_example by (simp add: STORAGE_URL_def)
qed

end
